theory Spec2Isabelle
  imports Main "HOL-Library.Sublist"
begin

section \<open>Python strings\<close>

text \<open>
  A Python \<open>str\<close> is modelled as a \<^typ>\<open>string\<close> whose characters are the code points
  0 to 255. \<open>isspace\<close> lists the code points of that range for which Python's
  \<open>str.isspace\<close> holds; \<open>str.strip()\<close> removes exactly these at both ends.
\<close>

definition newline :: char where
  "newline = CHR 0x0A"

definition isspace :: "char \<Rightarrow> bool" where
  "isspace c = (of_char c \<in> {9, 10, 11, 12, 13, 28, 29, 30, 31, 32, 133, 160 :: nat})"

definition lstrip :: "string \<Rightarrow> string" where
  "lstrip s = dropWhile isspace s"

definition rstrip :: "string \<Rightarrow> string" where
  "rstrip s = rev (dropWhile isspace (rev s))"

definition strip :: "string \<Rightarrow> string" where
  "strip s = rstrip (lstrip s)"

text \<open>\<open>str.lower()\<close> on the code points 0 to 255: A-Z and the Latin-1 capitals.\<close>

definition lower_char :: "char \<Rightarrow> char" where
  "lower_char c =
     (let n = of_char c :: nat
      in if (65 \<le> n \<and> n \<le> 90) \<or> (192 \<le> n \<and> n \<le> 222 \<and> n \<noteq> 215)
         then char_of (n + 32) else c)"

definition lower :: "string \<Rightarrow> string" where
  "lower s = map lower_char s"

definition startswith :: "string \<Rightarrow> string \<Rightarrow> bool" where
  "startswith s p = prefix p s"

text \<open>
  \<open>s.split(sep)\<close>: the occurrences of \<open>sep\<close> are found from the left and do not overlap.
  Python raises \<open>ValueError\<close> on an empty separator; every call of the program passes a
  constant, non-empty one, and the model leaves the string whole there.
\<close>

fun cons_first :: "char \<Rightarrow> string list \<Rightarrow> string list" where
  "cons_first c [] = [[c]]"
| "cons_first c (seg # segs) = (c # seg) # segs"

fun str_split :: "string \<Rightarrow> string \<Rightarrow> string list" where
  "str_split sep [] = [[]]"
| "str_split sep (c # cs) =
     (if sep \<noteq> [] \<and> prefix sep (c # cs)
      then [] # str_split sep (drop (length sep) (c # cs))
      else cons_first c (str_split sep cs))"

text \<open>\<open>s.split(c, 1)\<close> for a string \<open>s\<close> in which the character \<open>c\<close> occurs: the part
  before the first \<open>c\<close> and the part after it.\<close>

definition split_once :: "char \<Rightarrow> string \<Rightarrow> string \<times> string" where
  "split_once c s = (takeWhile (\<lambda>x. x \<noteq> c) s, drop 1 (dropWhile (\<lambda>x. x \<noteq> c) s))"

fun str_join :: "string \<Rightarrow> string list \<Rightarrow> string" where
  "str_join sep [] = []"
| "str_join sep [s] = s"
| "str_join sep (s # t # ts) = s @ sep @ str_join sep (t # ts)"

text \<open>Python's \<open>a or b\<close> on strings and on optional strings (\<open>py_bool\<close> is the truth value
  of an optional string: \<open>None\<close> and the empty string are false).\<close>

definition or_str :: "string \<Rightarrow> string \<Rightarrow> string" where
  "or_str a b = (if a \<noteq> [] then a else b)"

fun py_bool :: "string option \<Rightarrow> bool" where
  "py_bool None = False"
| "py_bool (Some s) = (s \<noteq> [])"

definition or_opt :: "string option \<Rightarrow> string option \<Rightarrow> string option" where
  "or_opt a b = (if py_bool a then a else b)"

definition or_else :: "string option \<Rightarrow> string \<Rightarrow> string" where
  "or_else a b = (case a of None \<Rightarrow> b | Some s \<Rightarrow> or_str s b)"

text \<open>\<open>str(n)\<close> of an integer: its decimal digits, with a minus sign when negative.\<close>

definition digit_char :: "nat \<Rightarrow> char" where
  "digit_char d = char_of (48 + d)"

fun str_nat :: "nat \<Rightarrow> string" where
  "str_nat n = (if n < 10 then [digit_char n] else str_nat (n div 10) @ [digit_char (n mod 10)])"

definition str_int :: "int \<Rightarrow> string" where
  "str_int i = (if i < 0 then CHR ''-'' # str_nat (nat (- i)) else str_nat (nat i))"

section \<open>Output parser (utils.py)\<close>

definition parse_code_and_text :: "string \<Rightarrow> string \<times> string" where
  "parse_code_and_text output =
     (let fence = ''```'';
          segments = str_split fence output
      in if sublist fence output \<and> 3 \<le> length segments
         then
           (let code_block = segments ! 1;
                code =
                  (if newline \<in> set code_block
                   then
                     (let (first_line, rest) = split_once newline code_block
                      in if strip first_line \<noteq> [] \<and> \<not> startswith (strip first_line) ''#''
                         then rest else code_block)
                   else code_block);
                text = strip (segments ! 0 @ concat (drop 2 segments))
            in (strip code, strip text))
         else (strip [], strip output))"

section \<open>Exceptions (exceptions.py, and the built-in ones the program meets)\<close>

text \<open>Each exception carries its message, \<open>str(e)\<close>.\<close>

datatype error =
    CodexError string
  | BackendNotFoundError string
  | ExecutionError string
  | ValueError string
  | EOFError string
  | OSError string
  | FileNotFoundError string
  | UnicodeDecodeError string

fun message :: "error \<Rightarrow> string" where
  "message (CodexError m) = m"
| "message (BackendNotFoundError m) = m"
| "message (ExecutionError m) = m"
| "message (ValueError m) = m"
| "message (EOFError m) = m"
| "message (OSError m) = m"
| "message (FileNotFoundError m) = m"
| "message (UnicodeDecodeError m) = m"

text \<open>The classes an exception is an instance of: its own class first, then its bases
  (\<open>class BackendNotFoundError(CodexError)\<close>, \<open>class ExecutionError(CodexError)\<close>,
  \<open>class CodexError(Exception)\<close>). An \<open>except C\<close> clause catches \<open>e\<close> when \<open>C\<close> is among
  them.\<close>

fun mro :: "error \<Rightarrow> string list" where
  "mro (CodexError m) = [''CodexError'', ''Exception'']"
| "mro (BackendNotFoundError m) = [''BackendNotFoundError'', ''CodexError'', ''Exception'']"
| "mro (ExecutionError m) = [''ExecutionError'', ''CodexError'', ''Exception'']"
| "mro (ValueError m) = [''ValueError'', ''Exception'']"
| "mro (EOFError m) = [''EOFError'', ''Exception'']"
| "mro (OSError m) = [''OSError'', ''Exception'']"
| "mro (FileNotFoundError m) = [''FileNotFoundError'', ''OSError'', ''Exception'']"
| "mro (UnicodeDecodeError m) = [''UnicodeDecodeError'', ''UnicodeError'', ''ValueError'', ''Exception'']"

definition isinstance :: "error \<Rightarrow> string \<Rightarrow> bool" where
  "isinstance e cls = (cls \<in> set (mro e))"

section \<open>The world outside the program\<close>

text \<open>
  A file is absent, holds text, or cannot be read: \<open>open\<close> raises \<open>OSError\<close> with the
  given message (no permission, a directory), or \<open>read\<close> raises \<open>UnicodeDecodeError\<close>
  (bytes that are not UTF-8).
\<close>

datatype fnode = Absent | Text string | Denied string | Garbled string

text \<open>
  A child process, as \<open>subprocess.Popen\<close> and \<open>communicate\<close> see it. Left alone it exits
  after \<open>lifetime\<close> ticks with \<open>returncode\<close>. The argument \<open>None\<close> of the other fields
  stands for a child that ran to its end, \<open>Some t\<close> for one that was killed at time \<open>t\<close>:
  \<^item> \<open>captured\<close> is what \<open>communicate\<close> makes of the bytes the two pipes delivered. The
    pipes are opened with \<open>text=True\<close> and no \<open>errors=\<close>, so decoding is strict: the result
    is the two texts (\<open>Inr\<close>), or, when the bytes do not decode, the message of the
    \<open>UnicodeDecodeError\<close> that \<open>communicate\<close> raises (\<open>Inl\<close>);
  \<^item> \<open>reads\<close> is the number of lines the child takes from the standard input of the
    program, which it inherits when \<open>Popen\<close> is called with \<open>stdin=None\<close>;
  \<^item> \<open>effect\<close> is what it did to the file system.
\<close>

record process =
  lifetime :: nat
  returncode :: int
  captured :: "int option \<Rightarrow> string + string \<times> string"
  reads :: "int option \<Rightarrow> nat"
  effect :: "int option \<Rightarrow> (string \<Rightarrow> fnode) \<Rightarrow> (string \<Rightarrow> fnode)"

text \<open>
  The state the program reads and changes:
  \<^item> \<open>environ\<close>: the environment variables;
  \<^item> \<open>executable p\<close>: \<open>os.path.isfile(p) and os.access(p, os.X_OK)\<close>;
  \<^item> \<open>fs\<close>: the files;
  \<^item> \<open>config_codex\<close>: the table \<open>backend.codex\<close> of \<open>~/.pycodex/config.toml\<close> as
    \<open>get_config\<close> loads it (empty when the file or the table is missing); \<open>cli\<close>, \<open>model\<close>,
    \<open>approval_mode\<close> and \<open>sandbox\<close> are strings, the two toggles stand as their \<open>str()\<close>;
  \<^item> \<open>stdin\<close>: the lines still to be read from standard input (none: end of file);
  \<^item> \<open>prompts\<close>: the prompts \<open>input\<close> has written;
  \<^item> \<open>launch cmd input\<close>: what \<open>Popen(cmd)\<close> does: it raises \<open>OSError\<close> with the given
    message (no such program), or starts a child;
  \<^item> \<open>spawned\<close>: the command lines handed to \<open>Popen\<close> so far, each with the text for
    its standard input;
  \<^item> \<open>killed\<close>: the command lines of the children killed so far;
  \<^item> \<open>tempname n\<close>: the path the operating system picks for the \<open>n\<close>-th temporary file,
    \<open>tempcount\<close> how many have been made.
\<close>

record world =
  environ :: "string \<rightharpoonup> string"
  executable :: "string \<Rightarrow> bool"
  fs :: "string \<Rightarrow> fnode"
  config_codex :: "string \<rightharpoonup> string"
  stdin :: "string list"
  prompts :: "string list"
  launch :: "string list \<Rightarrow> string option \<Rightarrow> string + process"
  spawned :: "(string list \<times> string option) list"
  killed :: "string list list"
  tempname :: "nat \<Rightarrow> string"
  tempcount :: nat

text \<open>\<open>os.getenv(name, default)\<close>; \<open>os.getenv(name)\<close> is \<open>environ w name\<close>.\<close>

definition getenv :: "world \<Rightarrow> string \<Rightarrow> string \<Rightarrow> string" where
  "getenv w name dflt = (case environ w name of None \<Rightarrow> dflt | Some v \<Rightarrow> v)"

text \<open>\<open>input(prompt)\<close>: writes the prompt, then reads a line or raises \<open>EOFError\<close>.\<close>

definition py_input :: "world \<Rightarrow> string \<Rightarrow> world \<times> (error + string)" where
  "py_input w prompt =
     (case stdin w of
        [] \<Rightarrow> (w\<lparr>prompts := prompts w @ [prompt]\<rparr>, Inl (EOFError ''EOF when reading a line''))
      | line # lines \<Rightarrow> (w\<lparr>stdin := lines, prompts := prompts w @ [prompt]\<rparr>, Inr line))"

section \<open>utils.py\<close>

definition read_text :: "world \<Rightarrow> string \<Rightarrow> error + string" where
  "read_text w path =
     (case fs w path of
        Absent \<Rightarrow> Inl (FileNotFoundError (''[Errno 2] No such file or directory: '' @ path))
      | Text content \<Rightarrow> Inr content
      | Denied m \<Rightarrow> Inl (OSError m)
      | Garbled m \<Rightarrow> Inl (UnicodeDecodeError m))"

text \<open>The loop of \<open>read_files\<close>: the lists \<open>combined\<close> and \<open>log_parts\<close>.\<close>

fun read_files_loop :: "world \<Rightarrow> string list \<Rightarrow> string list \<times> string list" where
  "read_files_loop w [] = ([], [])"
| "read_files_loop w (p # paths) =
     (let (combined, log_parts) = read_files_loop w paths
      in case read_text w p of
           Inr content \<Rightarrow>
             ((''\<newline>===== FILE: '' @ p @ '' =====\<newline>'' @ content @ ''\<newline>'') # combined,
              (''Included file: '' @ p @ '' ('' @ str_nat (length content) @ '' chars)'') # log_parts)
         | Inl e \<Rightarrow>
             if isinstance e ''FileNotFoundError''
             then (combined, (''File not found: '' @ p) # log_parts)
             else (combined, (''Error reading '' @ p @ '': '' @ message e) # log_parts))"

definition read_files :: "world \<Rightarrow> string list \<Rightarrow> string \<times> string" where
  "read_files w paths =
     (let (combined, log_parts) = read_files_loop w paths
      in (concat combined, str_join ''\<newline>'' log_parts))"

definition is_noninteractive :: "world \<Rightarrow> bool" where
  "is_noninteractive w = (getenv w ''PYCODEX_NONINTERACTIVE'' ''0'' = ''1'')"

definition approve_action :: "world \<Rightarrow> string \<Rightarrow> world \<times> bool" where
  "approve_action w prompt =
     (if is_noninteractive w then (w, False)
      else case py_input w (prompt @ '' [y/N]: '') of
             (w', Inl e) \<Rightarrow> (w', False)
           | (w', Inr line) \<Rightarrow> (w', lower (strip line) \<in> {''y'', ''yes''}))"

text \<open>
  The world once a child has ended (\<open>how = None\<close>: it exited; \<open>how = Some t\<close>: it was killed
  at time \<open>t\<close>): its writes are in the file system, and the lines it read are gone from
  the standard input when it inherited it (\<open>input_text is None\<close>; otherwise its standard
  input is a pipe).
\<close>

definition after_child :: "world \<Rightarrow> string option \<Rightarrow> process \<Rightarrow> int option \<Rightarrow> world" where
  "after_child w input_text proc how =
     w\<lparr>fs := effect proc how (fs w),
       stdin := (if input_text = None then drop (reads proc how) (stdin w) else stdin w)\<rparr>"

text \<open>
  \<open>run_subprocess\<close>: \<open>Popen\<close>, then \<open>communicate\<close> with the timeout. \<open>communicate\<close>
  raises \<open>TimeoutExpired\<close> when the child is still running after \<open>timeout\<close> ticks; the child
  is then killed and \<open>communicate\<close> is called again, inside the \<open>except\<close> clause. Either
  call of \<open>communicate\<close> decodes what the pipes delivered and raises \<open>UnicodeDecodeError\<close>
  when that fails; nothing catches it.
\<close>

definition run_subprocess ::
  "world \<Rightarrow> string list \<Rightarrow> string option \<Rightarrow> int option \<Rightarrow> world \<times> (error + int \<times> string \<times> string)" where
  "run_subprocess w cmd input_text timeout =
     (case launch w cmd input_text of
        Inl m \<Rightarrow> (w\<lparr>spawned := spawned w @ [(cmd, input_text)]\<rparr>, Inl (OSError m))
      | Inr proc \<Rightarrow>
          (let w1 = w\<lparr>spawned := spawned w @ [(cmd, input_text)]\<rparr>;
               exited =
                 (case captured proc None of
                    Inl m \<Rightarrow> (after_child w1 input_text proc None, Inl (UnicodeDecodeError m))
                  | Inr (out, err) \<Rightarrow>
                      (after_child w1 input_text proc None,
                       Inr (returncode proc, or_str out [], or_str err [])))
           in case timeout of
                Some t \<Rightarrow>
                  if t < int (lifetime proc)
                  then
                    (let w2 = (after_child w1 input_text proc (Some t))\<lparr>killed := killed w1 @ [cmd]\<rparr>
                     in case captured proc (Some t) of
                          Inl m \<Rightarrow> (w2, Inl (UnicodeDecodeError m))
                        | Inr (out, err) \<Rightarrow>
                            (w2, Inr (124, or_str out [], or_str err ''Timeout expired'')))
                  else exited
              | None \<Rightarrow> exited))"

definition exec_shell_command ::
  "world \<Rightarrow> string \<Rightarrow> bool \<Rightarrow> string \<Rightarrow> world \<times> (error + int \<times> string \<times> string)" where
  "exec_shell_command w command safe approval_mode =
     (let cmd = [''bash'', ''-lc'', command]
      in if \<not> safe \<or> approval_mode = ''full-auto'' then run_subprocess w cmd None None
         else if approval_mode = ''auto-edit'' then run_subprocess w cmd None None
         else if is_noninteractive w
         then (w, Inl (ExecutionError
                 (''Safe execution requires approval in noninteractive mode. '' @
                  ''Set approval_mode='full-auto' or PYCODEX_NONINTERACTIVE=0.'')))
         else case approve_action w (''Execute command: '' @ command) of
                (w', True) \<Rightarrow> run_subprocess w' cmd None None
              | (w', False) \<Rightarrow> (w', Inr (125, [], ''Command not approved by user'')))"

definition path_join :: "string \<Rightarrow> string \<Rightarrow> string" where
  "path_join a b =
     (if startswith b ''/'' then b
      else if a = [] \<or> last a = CHR ''/'' then a @ b
      else a @ ''/'' @ b)"

text \<open>The loop of \<open>which\<close> over the entries of \<open>PATH\<close>.\<close>

fun which_loop :: "world \<Rightarrow> string \<Rightarrow> string list \<Rightarrow> string option" where
  "which_loop w cmd [] = None"
| "which_loop w cmd (path # paths) =
     (let candidate = path_join path cmd
      in if executable w candidate then Some candidate else which_loop w cmd paths)"

definition which :: "world \<Rightarrow> string \<Rightarrow> string option" where
  "which w cmd = which_loop w cmd (str_split '':'' (getenv w ''PATH'' []))"

definition build_cli_command ::
  "string \<Rightarrow> string \<Rightarrow> string option \<Rightarrow> string option \<Rightarrow> string list option \<Rightarrow> string list" where
  "build_cli_command base_cmd subcommand model approval_mode extra_args =
     [base_cmd, subcommand]
     @ (case model of Some m \<Rightarrow> if m \<noteq> [] then [''--model'', m] else [] | None \<Rightarrow> [])
     @ (case approval_mode of Some a \<Rightarrow> if a \<noteq> [] then [''--approval'', a] else [] | None \<Rightarrow> [])
     @ (case extra_args of Some xs \<Rightarrow> xs | None \<Rightarrow> [])"

section \<open>Results (cli_wrapper.py)\<close>

record CodexResult =
  code :: string
  "text" :: string
  log :: string

record CommandResult =
  "output" :: string
  error :: string
  status_code :: int

section \<open>Backend adapters (codex.py, gemini.py)\<close>

text \<open>The attributes both adapters have (\<open>available\<close> is \<open>_available\<close>), and the two
  toggles of the Codex adapter. The parameter \<open>code\<close> of \<open>explain\<close> and \<open>edit\<close> is
  written \<open>snippet\<close>, since \<open>code\<close> is the field of \<open>CodexResult\<close>.\<close>

record backend =
  model :: "string option"
  approval_mode :: string
  base_cmd :: string
  available :: bool

record codex_backend = backend +
  use_files_arg :: bool
  split_edit :: bool

definition truthy :: "string \<Rightarrow> bool" where
  "truthy val = (lower (strip val) \<in> {''1'', ''true'', ''yes'', ''on''})"

text \<open>A name between single quotes, as \<open>f"'{name}'"\<close> formats it.\<close>

definition quoted :: "string \<Rightarrow> string" where
  "quoted name = CHR 0x27 # name @ [CHR 0x27]"

subsection \<open>CodexBackend\<close>

definition codex_init :: "world \<Rightarrow> string option \<Rightarrow> string \<Rightarrow> codex_backend" where
  "codex_init w model_arg approval_mode_arg =
     (let bc = config_codex w;
          cmd = getenv w ''PYCODEX_CODEX_CLI'' (or_else (bc ''cli'') ''codex'')
      in \<lparr> model =
             or_opt (environ w ''PYCODEX_CODEX_MODEL'')
               (or_opt model_arg (or_opt (bc ''model'') (Some ''gpt-5-codex''))),
           approval_mode =
             getenv w ''PYCODEX_APPROVAL''
               (or_str approval_mode_arg (or_else (bc ''approval_mode'') ''suggest'')),
           base_cmd = cmd,
           available = (which w cmd \<noteq> None),
           use_files_arg =
             truthy (getenv w ''PYCODEX_CODEX_FILES_ARG''
               (case bc ''files_arg'' of None \<Rightarrow> ''False'' | Some v \<Rightarrow> v)),
           split_edit =
             truthy (getenv w ''PYCODEX_CODEX_SPLIT_EDIT''
               (case bc ''split_edit'' of None \<Rightarrow> ''True'' | Some v \<Rightarrow> v)) \<rparr>)"

definition codex_ensure_available :: "world \<Rightarrow> codex_backend \<Rightarrow> error + unit" where
  "codex_ensure_available w self =
     (if \<not> available self \<and> which w (base_cmd self) = None
      then Inl (BackendNotFoundError
             (''Codex CLI not found: '' @ quoted (base_cmd self) @
              ''. Set PYCODEX_CODEX_CLI or install the CLI.''))
      else Inr ())"

text \<open>\<open>tempfile.NamedTemporaryFile(..., delete=False)\<close> and \<open>close\<close>: a new, empty file
  (the temporary directory is taken to be writable).\<close>

definition named_temporary_file :: "world \<Rightarrow> world \<times> string" where
  "named_temporary_file w =
     (let tmp_path = tempname w (tempcount w)
      in (w\<lparr>fs := (fs w)(tmp_path := Text []), tempcount := Suc (tempcount w)\<rparr>, tmp_path))"

text \<open>\<open>os.unlink\<close> under \<open>try ... except Exception: pass\<close>.\<close>

definition unlink :: "world \<Rightarrow> string \<Rightarrow> world" where
  "unlink w path = w\<lparr>fs := (fs w)(path := Absent)\<rparr>"

text \<open>
  \<open>_run_exec\<close>, in the order of the source. Three of its blocks are definitions of their
  own: \<open>add_context\<close> is the prompt with the \<open>[CONTEXT]\<close> of the files (the same lines
  stand in \<open>GeminiBackend._invoke\<close>), \<open>codex_cmd\<close> the command line \<open>cmd\<close>, and
  \<open>codex_result\<close> everything after \<open>run_subprocess\<close> has returned: reading the last
  message under \<open>try ... finally\<close>, the check of the status, the parsing.
\<close>

definition add_context :: "string \<Rightarrow> string \<Rightarrow> string" where
  "add_context prompt context =
     (if context \<noteq> [] then prompt @ ''\<newline>\<newline>[CONTEXT]\<newline>'' @ context else prompt)"

definition codex_cmd :: "world \<Rightarrow> codex_backend \<Rightarrow> string \<Rightarrow> string list" where
  "codex_cmd w self tmp_path =
     (let sandbox = or_opt (environ w ''PYCODEX_CODEX_SANDBOX'') (config_codex w ''sandbox'')
      in [base_cmd self, ''exec'']
         @ (case model self of
              Some m \<Rightarrow> if m \<noteq> [] then [''--model'', m] else []
            | None \<Rightarrow> [])
         @ [''--color'', ''never'', ''--skip-git-repo-check'']
         @ (case sandbox of
              Some sb \<Rightarrow> if sb \<noteq> [] then [''--sandbox'', sb] else []
            | None \<Rightarrow> [])
         @ [''--output-last-message'', tmp_path])"

definition codex_result ::
  "world \<Rightarrow> string \<Rightarrow> string list \<Rightarrow> string \<Rightarrow> int \<times> string \<times> string \<Rightarrow>
   world \<times> (error + CodexResult)" where
  "codex_result w tmp_path cmd file_log result =
     (case result of
        (status, out, err) \<Rightarrow>
          (case (if fs w tmp_path \<noteq> Absent then read_text w tmp_path else Inr out) of
             Inl e \<Rightarrow> (unlink w tmp_path, Inl e)
           | Inr last_msg \<Rightarrow>
               (let w' = unlink w tmp_path
                in if status \<noteq> 0
                   then (w', Inl (ExecutionError
                           (''Codex CLI failed ('' @ str_int status @ ''): '' @
                            or_str (strip err) (strip out))))
                   else
                     (let (code, text) = parse_code_and_text last_msg
                      in (w', Inr \<lparr> code = code, text = text,
                            log = ''cmd='' @ str_join '' '' cmd @ ''\<newline>'' @ file_log \<rparr>)))))"

definition codex_run_exec ::
  "world \<Rightarrow> codex_backend \<Rightarrow> string \<Rightarrow> string list option \<Rightarrow> world \<times> (error + CodexResult)" where
  "codex_run_exec w self prompt files =
     (case codex_ensure_available w self of
        Inl e \<Rightarrow> (w, Inl e)
      | Inr _ \<Rightarrow>
          (let (context, file_log) = read_files w (case files of None \<Rightarrow> [] | Some fl \<Rightarrow> fl);
               full_prompt = add_context prompt context;
               (w1, tmp_path) = named_temporary_file w;
               cmd = codex_cmd w1 self tmp_path
           in case run_subprocess w1 cmd (Some full_prompt) None of
                (w2, Inl e) \<Rightarrow> (w2, Inl e)
              | (w2, Inr result) \<Rightarrow> codex_result w2 tmp_path cmd file_log result))"

definition codex_generate ::
  "world \<Rightarrow> codex_backend \<Rightarrow> string \<Rightarrow> string list option \<Rightarrow> world \<times> (error + CodexResult)" where
  "codex_generate w self prompt files = codex_run_exec w self prompt files"

definition codex_explain ::
  "world \<Rightarrow> codex_backend \<Rightarrow> string \<Rightarrow> world \<times> (error + CodexResult)" where
  "codex_explain w self snippet =
     codex_run_exec w self
       (''Explain the following code in clear terms. Include purpose, key logic, and potential issues.\<newline>\<newline>'' @
        ''```\<newline>'' @ snippet @ ''\<newline>```\<newline>'')
       None"

definition codex_edit ::
  "world \<Rightarrow> codex_backend \<Rightarrow> string \<Rightarrow> string \<Rightarrow> world \<times> (error + CodexResult)" where
  "codex_edit w self snippet instructions =
     codex_run_exec w self
       (''Edit the code per the instructions. Respond with the full, updated code in a fenced block.\<newline>\<newline>'' @
        ''[INSTRUCTIONS]\<newline>'' @ instructions @ ''\<newline>\<newline>[CODE]\<newline>```\<newline>'' @ snippet @ ''\<newline>```\<newline>'')
       None"


subsection \<open>GeminiBackend\<close>


definition gemini_ensure_available :: "world \<Rightarrow> backend \<Rightarrow> error + unit" where
  "gemini_ensure_available w self =
     (if \<not> available self \<and> which w (base_cmd self) = None
      then Inl (BackendNotFoundError
             (''Gemini CLI not found: '' @ quoted (base_cmd self) @
              ''. Set PYCODEX_GEMINI_CLI or install the CLI.''))
      else Inr ())"

text \<open>\<open>_invoke\<close>; \<open>gemini_result\<close> is its part after \<open>run_subprocess\<close> has returned.\<close>

definition gemini_result ::
  "world \<Rightarrow> string list \<Rightarrow> string \<Rightarrow> int \<times> string \<times> string \<Rightarrow> world \<times> (error + CodexResult)" where
  "gemini_result w cmd file_log result =
     (case result of
        (status, out, err) \<Rightarrow>
          if status \<noteq> 0
          then (w, Inl (ExecutionError
                  (''Gemini CLI failed ('' @ str_int status @ ''): '' @
                   or_str (strip err) (strip out))))
          else
            (let (code, text) = parse_code_and_text out
             in (w, Inr \<lparr> code = code, text = text,
                   log = ''cmd='' @ str_join '' '' cmd @ ''\<newline>'' @ file_log \<rparr>)))"

definition gemini_invoke ::
  "world \<Rightarrow> backend \<Rightarrow> string \<Rightarrow> string \<Rightarrow> string list option \<Rightarrow> world \<times> (error + CodexResult)" where
  "gemini_invoke w self subcommand payload files =
     (case gemini_ensure_available w self of
        Inl e \<Rightarrow> (w, Inl e)
      | Inr _ \<Rightarrow>
          (let (context, file_log) = read_files w (case files of None \<Rightarrow> [] | Some fl \<Rightarrow> fl);
               full_input = add_context payload context;
               cmd = build_cli_command (base_cmd self) subcommand (model self)
                       (Some (approval_mode self)) None
           in case run_subprocess w cmd (Some full_input) None of
                (w1, Inl e) \<Rightarrow> (w1, Inl e)
              | (w1, Inr result) \<Rightarrow> gemini_result w1 cmd file_log result))"

definition gemini_generate ::
  "world \<Rightarrow> backend \<Rightarrow> string \<Rightarrow> string list option \<Rightarrow> world \<times> (error + CodexResult)" where
  "gemini_generate w self prompt files = gemini_invoke w self ''generate'' prompt files"

definition gemini_explain :: "world \<Rightarrow> backend \<Rightarrow> string \<Rightarrow> world \<times> (error + CodexResult)" where
  "gemini_explain w self snippet = gemini_invoke w self ''explain'' snippet None"

definition gemini_edit ::
  "world \<Rightarrow> backend \<Rightarrow> string \<Rightarrow> string \<Rightarrow> world \<times> (error + CodexResult)" where
  "gemini_edit w self snippet instructions =
     gemini_invoke w self ''edit''
       (''[INSTRUCTIONS]\<newline>'' @ instructions @ ''\<newline>\<newline>[CODE]\<newline>'' @ snippet) None"


section \<open>Facade (__init__.py)\<close>

text \<open>
  \<open>PyCodex\<close> holds one of the two adapters and forwards the four operations to it. Its
  loop \<open>interactive\<close>, which reads lines and calls \<open>exec_command\<close> and \<open>generate\<close>, is
  not part of the model.
\<close>

datatype PyCodex = Codex codex_backend | Gemini backend


fun generate ::
  "world \<Rightarrow> PyCodex \<Rightarrow> string \<Rightarrow> string list option \<Rightarrow> world \<times> (error + CodexResult)" where
  "generate w (Codex b) prompt files = codex_generate w b prompt files"
| "generate w (Gemini b) prompt files = gemini_generate w b prompt files"

fun explain :: "world \<Rightarrow> PyCodex \<Rightarrow> string \<Rightarrow> world \<times> (error + CodexResult)" where
  "explain w (Codex b) snippet = codex_explain w b snippet"
| "explain w (Gemini b) snippet = gemini_explain w b snippet"

fun edit :: "world \<Rightarrow> PyCodex \<Rightarrow> string \<Rightarrow> string \<Rightarrow> world \<times> (error + CodexResult)" where
  "edit w (Codex b) snippet instructions = codex_edit w b snippet instructions"
| "edit w (Gemini b) snippet instructions = gemini_edit w b snippet instructions"


section \<open>The parser as the specification words it\<close>

text \<open>
  The code taken from the first fenced body, read from the specification's sentence: the
  first line is dropped unless it "is empty or begins with \<open>#\<close>". For comparison with
  \<open>parse_code_and_text\<close> only.
\<close>

definition fenced_code_as_claimed :: "string \<Rightarrow> string" where
  "fenced_code_as_claimed body =
     (if newline \<in> set body
      then (let (first_line, rest) = split_once newline body
            in if first_line = [] \<or> startswith first_line ''#'' then body else rest)
      else body)"

section \<open>Example worlds\<close>

text \<open>
  A machine with \<open>bash\<close> and no backend binary on its search path, standard input at end
  of file; its variants differ in one field. \<open>demo_echo\<close> and \<open>demo_sleep\<close> are the
  children of \<open>echo hi\<close> and \<open>sleep 10\<close>.
\<close>

definition demo_echo :: process where
  "demo_echo = \<lparr> lifetime = 1, returncode = 0,
      captured = (\<lambda>k. case k of None \<Rightarrow> Inr (''hi\<newline>'', []) | Some t \<Rightarrow> Inr ([], [])),
      reads = (\<lambda>k. 0),
      effect = (\<lambda>k files. files) \<rparr>"

definition demo_sleep :: process where
  "demo_sleep = \<lparr> lifetime = 10, returncode = 0,
      captured = (\<lambda>k. case k of None \<Rightarrow> Inr (''tick\<newline>tock\<newline>'', [])
                              | Some t \<Rightarrow> Inr (''tick\<newline>'', [])),
      reads = (\<lambda>k. 0),
      effect = (\<lambda>k files. files) \<rparr>"

text \<open>
  The child of a command that prints a character of two bytes and then sleeps: killed
  before the second byte is out, it leaves bytes that do not decode.
\<close>

definition demo_cut :: process where
  "demo_cut = \<lparr> lifetime = 10, returncode = 0,
      captured = (\<lambda>k. case k of None \<Rightarrow> Inr (''ok\<newline>'', [])
                              | Some t \<Rightarrow> Inl ''unexpected end of data''),
      reads = (\<lambda>k. 0),
      effect = (\<lambda>k files. files) \<rparr>"

definition demo_world :: world where
  "demo_world = \<lparr>
      environ = [''PATH'' \<mapsto> ''/usr/bin:/bin''],
      executable = (\<lambda>p. p = ''/bin/bash''),
      fs = (\<lambda>p. Absent),
      config_codex = Map.empty,
      stdin = [],
      prompts = [],
      launch = (\<lambda>cmd inp.
                  if cmd = [''bash'', ''-lc'', ''echo hi''] then Inr demo_echo
                  else if cmd = [''bash'', ''-lc'', ''sleep 10''] then Inr demo_sleep
                  else if cmd = [''bash'', ''-lc'', ''./emit''] then Inr demo_cut
                  else Inl ''[Errno 2] No such file or directory''),
      spawned = [],
      killed = [],
      tempname = (\<lambda>n. ''/tmp/pycodex_last_msg_'' @ str_nat n @ ''.txt''),
      tempcount = 0 \<rparr>"

definition demo_noninteractive :: world where
  "demo_noninteractive =
     demo_world\<lparr>environ := [''PATH'' \<mapsto> ''/usr/bin:/bin'', ''PYCODEX_NONINTERACTIVE'' \<mapsto> ''1'']\<rparr>"

definition demo_declining :: world where
  "demo_declining = demo_world\<lparr>stdin := [''no'']\<rparr>"

text \<open>The message of the exception \<open>exec_shell_command\<close> raises in suggest mode when no
  one can be asked.\<close>

definition approval_message :: string where
  "approval_message =
     ''Safe execution requires approval in noninteractive mode. '' @
     ''Set approval_mode='full-auto' or PYCODEX_NONINTERACTIVE=0.''"

definition demo_approving :: world where
  "demo_approving = demo_world\<lparr>stdin := ['' YES '']\<rparr>"



text \<open>
  A file that exists and cannot be read; and whether the file a child of the Codex adapter
  leaves at the path given with \<open>--output-last-message\<close> is one (the Gemini adapter reads
  standard output only).
\<close>

fun unreadable :: "fnode \<Rightarrow> bool" where
  "unreadable (Denied m) = True"
| "unreadable (Garbled m) = True"
| "unreadable node = False"

fun last_message_unreadable :: "PyCodex \<Rightarrow> world \<Rightarrow> process \<Rightarrow> bool" where
  "last_message_unreadable (Codex cb) w proc =
     unreadable (effect proc None ((fs w)(tempname w (tempcount w) := Text []))
                   (tempname w (tempcount w)))"
| "last_message_unreadable (Gemini gb) w proc = False"

text \<open>
  A machine on which \<open>codex\<close> and \<open>gemini\<close> are installed and exit with status 2 and
  \<open>bad flag\<close> on standard error; and one on which the child, before it exits with status
  2, leaves bytes that are not UTF-8 in the last-message file.
\<close>

definition demo_bad_flag :: process where
  "demo_bad_flag = \<lparr> lifetime = 1, returncode = 2,
      captured = (\<lambda>k. Inr ([], ''bad flag\<newline>'')),
      reads = (\<lambda>k. 0),
      effect = (\<lambda>k files. files) \<rparr>"

definition demo_garbling :: process where
  "demo_garbling = \<lparr> lifetime = 1, returncode = 2,
      captured = (\<lambda>k. Inr ([], ''bad flag\<newline>'')),
      reads = (\<lambda>k. 0),
      effect = (\<lambda>k files p. if p = ''/tmp/pycodex_last_msg_0.txt''
                              then Garbled ''invalid start byte'' else files p) \<rparr>"

definition demo_stub_world :: world where
  "demo_stub_world = demo_world\<lparr>
      executable := (\<lambda>p. p = ''/bin/bash'' \<or> p = ''/usr/bin/codex'' \<or> p = ''/usr/bin/gemini''),
      launch := (\<lambda>cmd inp. if take 1 cmd = [''codex''] \<or> take 1 cmd = [''gemini'']
                           then Inr demo_bad_flag
                           else Inl ''[Errno 2] No such file or directory'') \<rparr>"

definition demo_garbled_world :: world where
  "demo_garbled_world = demo_stub_world\<lparr>launch := (\<lambda>cmd inp. Inr demo_garbling)\<rparr>"

definition demo_stub_codex :: PyCodex where
  "demo_stub_codex = Codex (codex_init demo_stub_world (Some ''gpt-5-codex'') ''suggest'')"

definition demo_codex_cmd :: "string list" where
  "demo_codex_cmd =
     [''codex'', ''exec'', ''--model'', ''gpt-5-codex'', ''--color'', ''never'',
      ''--skip-git-repo-check'', ''--output-last-message'', ''/tmp/pycodex_last_msg_0.txt'']"



section \<open>Properties of the string functions\<close>

lemma strip_Nil: "strip [] = []"
  by (simp add: strip_def lstrip_def rstrip_def)

lemma rstrip_idem: "rstrip (rstrip s) = rstrip s"
  by (simp add: rstrip_def dropWhile_idem)

lemma lstrip_fixed: "s = [] \<or> \<not> isspace (hd s) \<Longrightarrow> lstrip s = s"
  by (cases s) (auto simp: lstrip_def)

lemma lstrip_head: "lstrip s = [] \<or> \<not> isspace (hd (lstrip s))"
  unfolding lstrip_def using hd_dropWhile by blast

lemma rstrip_prefix: "prefix (rstrip s) s"
proof -
  have "suffix (dropWhile isspace (rev s)) (rev s)"
    by (rule suffix_dropWhile)
  then show ?thesis
    by (simp add: rstrip_def suffix_to_prefix)
qed

lemma rstrip_head: "rstrip s \<noteq> [] \<Longrightarrow> hd (rstrip s) = hd s"
  by (metis hd_append2 prefix_def rstrip_prefix)

lemma rstrip_Nil: "rstrip [] = []"
  by (simp add: rstrip_def)

lemma strip_idem: "strip (strip s) = strip s"
proof -
  let ?x = "lstrip s"
  have "rstrip ?x = [] \<or> \<not> isspace (hd (rstrip ?x))"
    using lstrip_head [of s] rstrip_head [of ?x] by (cases "rstrip ?x = []") (auto simp: rstrip_Nil)
  then have "lstrip (rstrip ?x) = rstrip ?x"
    by (rule lstrip_fixed)
  then show ?thesis
    by (simp add: strip_def rstrip_idem)
qed

lemma str_split_no_sep: "\<not> sublist sep s \<Longrightarrow> str_split sep s = [s]"
  by (induction s) (auto simp: sublist_Cons_right)

lemma str_split_short_no_sep: "3 \<le> length (str_split sep s) \<Longrightarrow> sublist sep s"
  using str_split_no_sep [of sep s] by fastforce

lemma length_cons_first: "xs \<noteq> [] \<Longrightarrow> length (cons_first c xs) = length xs"
  by (cases xs) auto

lemma str_split_nonempty: "str_split sep s \<noteq> []"
  by (induction sep s rule: str_split.induct) (auto simp: neq_Nil_conv split: list.splits elim: cons_first.elims)

lemma str_split_sep_two: "sep \<noteq> [] \<Longrightarrow> sublist sep s \<Longrightarrow> 2 \<le> length (str_split sep s)"
proof (induction sep s rule: str_split.induct)
  case (1 sep)
  then show ?case by simp
next
  case (2 sep c cs)
  show ?case
  proof (cases "prefix sep (c # cs)")
    case True
    have "1 \<le> length (str_split sep (drop (length sep) (c # cs)))"
      using str_split_nonempty [of sep "drop (length sep) (c # cs)"] by (simp add: Suc_le_eq)
    with True "2.prems" show ?thesis by simp
  next
    case False
    with "2.prems" have "sublist sep cs"
      by (simp add: sublist_Cons_right)
    with "2.IH"(2) False "2.prems" have "2 \<le> length (str_split sep cs)"
      by simp
    with False show ?thesis
      by (simp add: length_cons_first str_split_nonempty)
  qed
qed

lemma split_once_eq:
  "c \<notin> set first_line \<Longrightarrow> split_once c (first_line @ c # rest) = (first_line, rest)"
  by (induction first_line) (auto simp: split_once_def)

lemma strip_blank_first_line:
  assumes "strip first_line = []"
  shows "strip (first_line @ newline # rest) = strip rest"
proof -
  have "\<forall>c\<in>set (lstrip first_line). isspace c"
    using assms by (simp add: strip_def rstrip_def dropWhile_eq_Nil_conv)
  then have "lstrip first_line = []"
    using lstrip_head [of first_line] by (cases "lstrip first_line") auto
  then have blank: "\<forall>c\<in>set first_line. isspace c"
    by (simp add: lstrip_def dropWhile_eq_Nil_conv)
  have "isspace newline"
    by (simp add: isspace_def newline_def)
  with blank have "lstrip (first_line @ newline # rest) = lstrip rest"
    by (simp add: lstrip_def dropWhile_append)
  then show ?thesis
    by (simp add: strip_def)
qed


section \<open>The output parser\<close>

text \<open>
  C10. When the fence marker occurs in the output but splitting on it gives fewer than
  three segments (an unterminated fence), \<open>parse_code_and_text\<close> returns the empty string
  as code and the whole output, stripped, as text.
\<close>

theorem parse_unterminated_fence:
  assumes "sublist ''```'' raw" and "length (str_split ''```'' raw) < 3"
  shows "parse_code_and_text raw = ([], strip raw)"
  using assms by (simp add: parse_code_and_text_def Let_def strip_Nil)

theorem parse_unterminated_fence_witness:
  "sublist ''```'' ''abc```def'' \<and> length (str_split ''```'' ''abc```def'') < 3 \<and>
   parse_code_and_text ''abc```def'' = ([], ''abc```def'')"
proof -
  have h1: "sublist ''```'' ''abc```def''" by (simp add: sublist_code)
  have h2: "length (str_split ''```'' ''abc```def'') < 3" by simp
  have "strip ''abc```def'' = ''abc```def''" by (simp add: strip_def lstrip_def rstrip_def isspace_def)
  with parse_unterminated_fence [OF h1 h2] h1 h2 show ?thesis by simp
qed


text \<open>
  With a separator that occurs, the split has at least two segments: fewer than three
  means exactly two, a single marker.
\<close>

lemma unterminated_fence_two_segments:
  "sublist ''```'' raw \<Longrightarrow> length (str_split ''```'' raw) < 3 \<Longrightarrow>
   length (str_split ''```'' raw) = 2"
  using str_split_sep_two [of "''```''" raw] by simp

text \<open>
  C8, as amended. When splitting on the fence marker gives at least three segments, the
  code is taken from the first fenced body: the whole body when it has no newline;
  otherwise the part after the first line, unless the first line, \<^emph>\<open>stripped of its
  surrounding whitespace\<close>, is empty or begins with \<open>#\<close>, in which case the whole body is
  kept. The text is the first segment followed by the segments after the body. Both are
  returned stripped.
\<close>

theorem parse_fenced_block:
  assumes "str_split ''```'' raw = pre # body # post # posts"
  shows "(newline \<notin> set body \<longrightarrow> fst (parse_code_and_text raw) = strip body) \<and>
         (\<forall>first_line rest.
            body = first_line @ newline # rest \<and> newline \<notin> set first_line \<longrightarrow>
            fst (parse_code_and_text raw) =
              strip (if strip first_line = [] \<or> startswith (strip first_line) ''#''
                     then body else rest)) \<and>
         snd (parse_code_and_text raw) = strip (pre @ post @ concat posts) \<and>
         strip (fst (parse_code_and_text raw)) = fst (parse_code_and_text raw) \<and>
         strip (snd (parse_code_and_text raw)) = snd (parse_code_and_text raw)"
proof -
  have "3 \<le> length (str_split ''```'' raw)"
    using assms by simp
  then have fence: "sublist ''```'' raw"
    by (rule str_split_short_no_sep)
  show ?thesis
    using assms fence
    by (auto simp: parse_code_and_text_def Let_def split_once_eq strip_idem)
qed


text \<open>
  C8 as stated fails: the first line \<open>"  #x"\<close> is neither empty nor does it begin with
  \<open>#\<close>, so the claim drops it and returns \<open>"y"\<close>; the code strips the line before it
  looks at it, keeps the whole body and returns \<open>"#x\ny"\<close>.
\<close>

theorem parse_fenced_block_counterexample:
  "fst (parse_code_and_text ''```  #x\<newline>y```'') \<noteq>
   strip (fenced_code_as_claimed (str_split ''```'' ''```  #x\<newline>y```'' ! 1))"
  by (simp add: parse_code_and_text_def fenced_code_as_claimed_def Let_def split_once_def
      sublist_code strip_def lstrip_def rstrip_def isspace_def newline_def startswith_def)

theorem parse_fenced_block_witness:
  "str_split ''```'' ''pre\<newline>```python\<newline>print(1)\<newline>```\<newline>post'' =
     [''pre\<newline>'', ''python\<newline>print(1)\<newline>'', ''\<newline>post''] \<and>
   parse_code_and_text ''pre\<newline>```python\<newline>print(1)\<newline>```\<newline>post'' =
     (''print(1)'', ''pre\<newline>\<newline>post'')"
proof -
  let ?raw = "''pre\<newline>```python\<newline>print(1)\<newline>```\<newline>post''"
  have seg: "str_split ''```'' ?raw = [''pre\<newline>'', ''python\<newline>print(1)\<newline>'', ''\<newline>post'']"
    by simp
  note T = parse_fenced_block [OF seg]
  have body: "''python\<newline>print(1)\<newline>'' = ''python'' @ newline # ''print(1)\<newline>''"
    by (simp add: newline_def)
  have nl: "newline \<notin> set ''python''"
    by (simp add: newline_def)
  have s1: "strip ''python'' = ''python''"
    by (simp add: strip_def lstrip_def rstrip_def isspace_def)
  have s2: "strip ''print(1)\<newline>'' = ''print(1)''"
    by (simp add: strip_def lstrip_def rstrip_def isspace_def)
  have s3: "strip (''pre\<newline>'' @ ''\<newline>post'' @ concat []) = ''pre\<newline>\<newline>post''"
    by (simp add: strip_def lstrip_def rstrip_def isspace_def)
  from T body nl have "fst (parse_code_and_text ?raw) =
      strip (if strip ''python'' = [] \<or> startswith (strip ''python'') ''#''
             then ''python\<newline>print(1)\<newline>'' else ''print(1)\<newline>'')"
    by blast
  then have c: "fst (parse_code_and_text ?raw) = ''print(1)''"
    by (simp add: s1 s2 startswith_def)
  from T have "snd (parse_code_and_text ?raw) = strip (''pre\<newline>'' @ ''\<newline>post'' @ concat [])"
    by blast
  then have t: "snd (parse_code_and_text ?raw) = ''pre\<newline>\<newline>post''"
    by (simp only: s3)
  from c t have "parse_code_and_text ?raw = (''print(1)'', ''pre\<newline>\<newline>post'')"
    by (simp add: prod_eq_iff)
  with seg show ?thesis by (simp only: simp_thms)
qed

section \<open>The process runner\<close>

lemma run_subprocess_spawned:
  "spawned (fst (run_subprocess w cmd inp t)) = spawned w @ [(cmd, inp)]"
  by (simp add: run_subprocess_def after_child_def Let_def
      split: sum.splits option.splits prod.splits)

lemma run_subprocess_prompts:
  "prompts (fst (run_subprocess w cmd inp t)) = prompts w"
  by (simp add: run_subprocess_def after_child_def Let_def
      split: sum.splits option.splits prod.splits)

text \<open>Without a timeout, the lines gone from the standard input are those the child read.\<close>

lemma run_subprocess_stdin:
  "stdin (fst (run_subprocess w cmd None None)) =
     (case launch w cmd None of
        Inl m \<Rightarrow> stdin w
      | Inr proc \<Rightarrow> drop (reads proc None) (stdin w))"
  by (simp add: run_subprocess_def after_child_def Let_def
      split: sum.splits option.splits prod.splits)

text \<open>
  Where the bytes captured up to the kill decode, a timeout that elapses before the child
  exits gives status 124 with the output captured so far, and \<open>Timeout expired\<close> as the
  standard error when none was captured; the child is killed.
\<close>

lemma timeout_kills_child_decodable:
  assumes "launch w cmd input_text = Inr proc" and "t < int (lifetime proc)"
      and "captured proc (Some t) = Inr (out, err)"
  shows "run_subprocess w cmd input_text (Some t) =
           ((after_child (w\<lparr>spawned := spawned w @ [(cmd, input_text)]\<rparr>) input_text proc (Some t))
              \<lparr>killed := killed w @ [cmd]\<rparr>,
            Inr (124, out, if err = [] then ''Timeout expired'' else err))"
  using assms
  by (simp add: run_subprocess_def Let_def or_str_def)

lemma timeout_kills_child_example:
  "snd (run_subprocess demo_world [''bash'', ''-lc'', ''sleep 10''] None (Some 2)) =
     Inr (124, ''tick\<newline>'', ''Timeout expired'') \<and>
   killed (fst (run_subprocess demo_world [''bash'', ''-lc'', ''sleep 10''] None (Some 2))) =
     [[''bash'', ''-lc'', ''sleep 10'']]"
proof -
  have a: "launch demo_world [''bash'', ''-lc'', ''sleep 10''] None = Inr demo_sleep"
    by (simp add: demo_world_def)
  have b: "(2::int) < int (lifetime demo_sleep)"
    by (simp add: demo_sleep_def)
  have c: "captured demo_sleep (Some 2) = Inr (''tick\<newline>'', [])"
    by (simp add: demo_sleep_def)
  have d: "killed demo_world = []"
    by (simp add: demo_world_def)
  from timeout_kills_child_decodable [OF a b c] show ?thesis
    by (simp add: d)
qed

text \<open>
  C6 fails at this input: \<open>run_subprocess(['bash', '-lc', './emit'], timeout=1)\<close>, where
  the child has written the first byte of a two-byte character when the timeout elapses.
  The child is killed, but the \<open>communicate()\<close> of the \<open>except\<close> clause cannot decode what
  was captured and raises \<open>UnicodeDecodeError\<close>: \<open>run_subprocess\<close> returns no status 124
  and no partial output.
\<close>

theorem timeout_undecodable_output:
  "launch demo_world [''bash'', ''-lc'', ''./emit''] None = Inr demo_cut \<and>
   (1::int) < int (lifetime demo_cut) \<and>
   snd (run_subprocess demo_world [''bash'', ''-lc'', ''./emit''] None (Some 1)) =
     Inl (UnicodeDecodeError ''unexpected end of data'') \<and>
   killed (fst (run_subprocess demo_world [''bash'', ''-lc'', ''./emit''] None (Some 1))) =
     [[''bash'', ''-lc'', ''./emit'']]"
  by (simp add: run_subprocess_def after_child_def Let_def demo_world_def demo_cut_def)

section \<open>The approval gate\<close>

text \<open>
  C4. With \<open>safe = False\<close> or the mode \<open>full-auto\<close>, \<open>exec_shell_command\<close> runs the command
  at once: its result is that of \<open>run_subprocess\<close> on \<open>bash -lc command\<close>, whatever the
  world (interactive or not, whatever waits on standard input); nothing is asked, and the
  only lines gone from the standard input are those the child itself read (it inherits
  the standard input of the program).
\<close>

theorem unsafe_or_full_auto_executes:
  assumes "\<not> safe \<or> mode = ''full-auto''"
  shows "exec_shell_command w command safe mode =
           run_subprocess w [''bash'', ''-lc'', command] None None \<and>
         spawned (fst (exec_shell_command w command safe mode)) =
           spawned w @ [([''bash'', ''-lc'', command], None)] \<and>
         prompts (fst (exec_shell_command w command safe mode)) = prompts w \<and>
         stdin (fst (exec_shell_command w command safe mode)) =
           (case launch w [''bash'', ''-lc'', command] None of
              Inl m \<Rightarrow> stdin w
            | Inr proc \<Rightarrow> drop (reads proc None) (stdin w))"
proof -
  have "exec_shell_command w command safe mode =
          run_subprocess w [''bash'', ''-lc'', command] None None"
    using assms by (auto simp: exec_shell_command_def Let_def)
  then show ?thesis
    by (simp add: run_subprocess_spawned run_subprocess_prompts run_subprocess_stdin)
qed

theorem unsafe_or_full_auto_executes_witness:
  "exec_shell_command demo_noninteractive ''echo hi'' False ''suggest'' =
     run_subprocess demo_noninteractive [''bash'', ''-lc'', ''echo hi''] None None \<and>
   exec_shell_command demo_declining ''echo hi'' True ''full-auto'' =
     run_subprocess demo_declining [''bash'', ''-lc'', ''echo hi''] None None \<and>
   snd (run_subprocess demo_declining [''bash'', ''-lc'', ''echo hi''] None None) =
     Inr (0, ''hi\<newline>'', [])"
proof -
  have a: "\<not> False \<or> ''suggest'' = ''full-auto''" by simp
  have b: "\<not> True \<or> ''full-auto'' = ''full-auto''" by simp
  have c: "snd (run_subprocess demo_declining [''bash'', ''-lc'', ''echo hi''] None None) =
     Inr (0, ''hi\<newline>'', [])"
    by (simp add: run_subprocess_def after_child_def demo_declining_def demo_world_def
        demo_echo_def or_str_def Let_def)
  from unsafe_or_full_auto_executes [OF a, of demo_noninteractive "''echo hi''"]
       unsafe_or_full_auto_executes [OF b, of demo_declining "''echo hi''"] c
  show ?thesis by blast
qed





text \<open>
  C2, as amended. With \<open>safe = True\<close>, the mode \<open>suggest\<close> and non-interactive mode
  active, \<open>exec_shell_command\<close> fails with \<^emph>\<open>\<open>ExecutionError\<close>\<close> (the program has no
  \<open>ApprovalRequiredError\<close>), and the world is unchanged: the command is not executed and
  nothing is asked.
\<close>

theorem suggest_noninteractive_raises:
  assumes "is_noninteractive w"
  shows "exec_shell_command w command True ''suggest'' = (w, Inl (ExecutionError approval_message))"
  using assms by (simp add: exec_shell_command_def approval_message_def Let_def)

theorem suggest_noninteractive_raises_witness:
  "is_noninteractive demo_noninteractive \<and>
   exec_shell_command demo_noninteractive ''echo hi'' True ''suggest'' =
     (demo_noninteractive, Inl (ExecutionError approval_message))"
proof -
  have a: "is_noninteractive demo_noninteractive"
    by (simp add: is_noninteractive_def getenv_def demo_noninteractive_def demo_world_def)
  from suggest_noninteractive_raises [OF a] a show ?thesis by blast
qed


text \<open>
  C2 as stated fails: the exception raised is an \<open>ExecutionError\<close>, which is not an
  \<open>ApprovalRequiredError\<close>; no clause \<open>except ApprovalRequiredError\<close> would catch it.
\<close>

theorem suggest_noninteractive_counterexample:
  "snd (exec_shell_command demo_noninteractive ''echo hi'' True ''suggest'') =
     Inl (ExecutionError approval_message) \<and>
   \<not> isinstance (ExecutionError approval_message) ''ApprovalRequiredError''"
  by (simp add: exec_shell_command_def approval_message_def Let_def is_noninteractive_def
      getenv_def demo_noninteractive_def demo_world_def isinstance_def)


text \<open>In suggest mode a child is spawned only after the prompt was answered \<open>y\<close> or
  \<open>yes\<close>.\<close>

lemma suggest_spawns_only_confirmed:
  assumes "spawned (fst (exec_shell_command w command True ''suggest'')) \<noteq> spawned w"
  shows "\<not> is_noninteractive w \<and>
         (\<exists>line rest. stdin w = line # rest \<and> lower (strip line) \<in> {''y'', ''yes''}) \<and>
         prompts (fst (exec_shell_command w command True ''suggest'')) =
           prompts w @ [''Execute command: '' @ command @ '' [y/N]: '']"
proof (cases "is_noninteractive w")
  case True
  with assms show ?thesis
    by (simp add: exec_shell_command_def Let_def)
next
  case False
  show ?thesis
  proof (cases "stdin w")
    case Nil
    with False assms show ?thesis
      by (simp add: exec_shell_command_def approve_action_def py_input_def Let_def)
  next
    case (Cons line rest)
    show ?thesis
    proof (cases "lower (strip line) \<in> {''y'', ''yes''}")
      case True
      with False Cons show ?thesis
        by (simp add: exec_shell_command_def approve_action_def py_input_def Let_def
            run_subprocess_prompts)
    next
      case no: False
      with False Cons assms show ?thesis
        by (simp add: exec_shell_command_def approve_action_def py_input_def Let_def)
    qed
  qed
qed


text \<open>
  C3. With \<open>safe = True\<close>, an approval mode outside \<open>suggest\<close>, \<open>auto-edit\<close> and
  \<open>full-auto\<close> behaves exactly as \<open>suggest\<close>; in particular a child is spawned only in
  an interactive context, after the prompt was written and answered \<open>y\<close> or \<open>yes\<close>.
\<close>

theorem unrecognized_mode_as_suggest:
  assumes "mode \<notin> {''suggest'', ''auto-edit'', ''full-auto''}"
  shows "exec_shell_command w command True mode = exec_shell_command w command True ''suggest'' \<and>
         (spawned (fst (exec_shell_command w command True mode)) \<noteq> spawned w \<longrightarrow>
            \<not> is_noninteractive w \<and>
            (\<exists>line rest. stdin w = line # rest \<and> lower (strip line) \<in> {''y'', ''yes''}) \<and>
            prompts (fst (exec_shell_command w command True mode)) =
              prompts w @ [''Execute command: '' @ command @ '' [y/N]: ''])"
proof -
  have same: "exec_shell_command w command True mode = exec_shell_command w command True ''suggest''"
    using assms by (simp add: exec_shell_command_def Let_def)
  show ?thesis
    unfolding same using suggest_spawns_only_confirmed [of w command] by blast
qed

theorem unrecognized_mode_as_suggest_witness:
  "''yolo'' \<notin> {''suggest'', ''auto-edit'', ''full-auto''} \<and>
   exec_shell_command demo_declining ''echo hi'' True ''yolo'' =
     exec_shell_command demo_declining ''echo hi'' True ''suggest'' \<and>
   snd (exec_shell_command demo_declining ''echo hi'' True ''yolo'') =
     Inr (125, [], ''Command not approved by user'') \<and>
   spawned (fst (exec_shell_command demo_approving ''echo hi'' True ''yolo'')) \<noteq>
     spawned demo_approving \<and>
   \<not> is_noninteractive demo_approving \<and>
   prompts (fst (exec_shell_command demo_approving ''echo hi'' True ''yolo'')) =
     [''Execute command: echo hi [y/N]: '']"
proof -
  have a: "''yolo'' \<notin> {''suggest'', ''auto-edit'', ''full-auto''}" by simp
  note T1 = unrecognized_mode_as_suggest [OF a, of demo_declining "''echo hi''"]
  note T2 = unrecognized_mode_as_suggest [OF a, of demo_approving "''echo hi''"]
  have b: "snd (exec_shell_command demo_declining ''echo hi'' True ''suggest'') =
     Inr (125, [], ''Command not approved by user'')"
    by (simp add: exec_shell_command_def approve_action_def py_input_def Let_def
        is_noninteractive_def getenv_def demo_declining_def demo_world_def
        lower_def lower_char_def strip_def lstrip_def rstrip_def isspace_def)
  have c: "spawned (fst (exec_shell_command demo_approving ''echo hi'' True ''suggest'')) \<noteq>
     spawned demo_approving"
    by (simp add: exec_shell_command_def approve_action_def py_input_def Let_def
        is_noninteractive_def getenv_def demo_approving_def demo_world_def
        lower_def lower_char_def strip_def lstrip_def rstrip_def isspace_def
        char_of_eq_iff run_subprocess_spawned)
  have d: "prompts demo_approving = []"
    by (simp add: demo_approving_def demo_world_def)
  from T1 b have e: "snd (exec_shell_command demo_declining ''echo hi'' True ''yolo'') =
     Inr (125, [], ''Command not approved by user'')"
    by simp
  from T2 have same: "exec_shell_command demo_approving ''echo hi'' True ''yolo'' =
     exec_shell_command demo_approving ''echo hi'' True ''suggest''"
    by blast
  have f: "spawned (fst (exec_shell_command demo_approving ''echo hi'' True ''yolo'')) \<noteq>
     spawned demo_approving"
    unfolding same by (rule c)
  with T2 have "\<not> is_noninteractive demo_approving \<and>
     prompts (fst (exec_shell_command demo_approving ''echo hi'' True ''yolo'')) =
       prompts demo_approving @ [''Execute command: '' @ ''echo hi'' @ '' [y/N]: '']"
    by blast
  then have g: "\<not> is_noninteractive demo_approving \<and>
     prompts (fst (exec_shell_command demo_approving ''echo hi'' True ''yolo'')) =
       [''Execute command: echo hi [y/N]: '']"
    by (simp add: d)
  from a T1 e f g show ?thesis by blast
qed

section \<open>The backend adapters\<close>

subsection \<open>Availability\<close>













subsection \<open>A child that exits with a non-zero status\<close>

text \<open>A child that is given its input through a pipe, exits, and whose output decodes.\<close>

lemma run_subprocess_exit:
  assumes "launch w cmd (Some x) = Inr proc" and "captured proc None = Inr (out, err)"
  shows "run_subprocess w cmd (Some x) None =
           (w\<lparr>spawned := spawned w @ [(cmd, Some x)], fs := effect proc None (fs w)\<rparr>,
            Inr (returncode proc, out, err))"
  using assms by (simp add: run_subprocess_def after_child_def Let_def or_str_def)

lemma codex_result_spawned:
  "spawned (fst (codex_result w tmp cmd file_log result)) = spawned w"
  by (cases result)
     (simp add: codex_result_def unlink_def Let_def split: sum.splits prod.splits)

lemma codex_result_nonzero:
  assumes "status \<noteq> 0" and "\<not> unreadable (fs w tmp)"
  shows "snd (codex_result w tmp cmd file_log (status, out, err)) =
           Inl (ExecutionError
             (''Codex CLI failed ('' @ str_int status @ ''): '' @ or_str (strip err) (strip out)))"
  using assms
  by (cases "fs w tmp") (simp_all add: codex_result_def read_text_def Let_def)

lemma gemini_result_spawned:
  "spawned (fst (gemini_result w cmd file_log result)) = spawned w"
  by (cases result) (simp add: gemini_result_def Let_def split: prod.splits)

lemma gemini_result_nonzero:
  assumes "status \<noteq> 0"
  shows "snd (gemini_result w cmd file_log (status, out, err)) =
           Inl (ExecutionError
             (''Gemini CLI failed ('' @ str_int status @ ''): '' @ or_str (strip err) (strip out)))"
  using assms by (simp add: gemini_result_def)

lemma codex_run_exec_nonzero:
  assumes sp: "spawned (fst (codex_run_exec w cb prompt files)) = spawned w @ [(cmd, inp)]"
      and la: "launch w cmd inp = Inr proc"
      and rc: "returncode proc \<noteq> 0"
      and ca: "captured proc None = Inr (out, err)"
      and rd: "\<not> unreadable (effect proc None ((fs w)(tempname w (tempcount w) := Text []))
                   (tempname w (tempcount w)))"
  shows "snd (codex_run_exec w cb prompt files) = Inl (ExecutionError
           (''Codex CLI failed ('' @ str_int (returncode proc) @ ''): '' @
            or_str (strip err) (strip out)))"
proof -
  have av: "codex_ensure_available w cb = Inr ()"
  proof (cases "codex_ensure_available w cb")
    case (Inl e)
    with sp show ?thesis
      by (simp add: codex_run_exec_def)
  next
    case (Inr u)
    then show ?thesis by simp
  qed
  obtain ctx file_log where rf:
    "read_files w (case files of None \<Rightarrow> [] | Some fl \<Rightarrow> fl) = (ctx, file_log)"
    by (cases "read_files w (case files of None \<Rightarrow> [] | Some fl \<Rightarrow> fl)")
  define tmp where "tmp = tempname w (tempcount w)"
  define w1 where "w1 = w\<lparr>fs := (fs w)(tmp := Text []), tempcount := Suc (tempcount w)\<rparr>"
  define cmd0 where "cmd0 = codex_cmd w1 cb tmp"
  define inp0 where "inp0 = Some (add_context prompt ctx)"
  have tf: "named_temporary_file w = (w1, tmp)"
    by (simp add: named_temporary_file_def Let_def w1_def tmp_def)
  have unfold: "codex_run_exec w cb prompt files =
      (case run_subprocess w1 cmd0 inp0 None of
         (w2, Inl e) \<Rightarrow> (w2, Inl e)
       | (w2, Inr result) \<Rightarrow> codex_result w2 tmp cmd0 file_log result)"
    unfolding cmd0_def inp0_def by (simp add: codex_run_exec_def av rf tf Let_def)
  have "spawned (fst (codex_run_exec w cb prompt files)) = spawned w1 @ [(cmd0, inp0)]"
    unfolding unfold
    using run_subprocess_spawned [of w1 cmd0 inp0 None]
    by (auto simp: codex_result_spawned split: prod.splits sum.splits)
  with sp have same: "cmd = cmd0" "inp = inp0"
    by (simp_all add: w1_def)
  from la have "launch w1 cmd0 (Some (add_context prompt ctx)) = Inr proc"
    by (simp add: same w1_def inp0_def)
  from run_subprocess_exit [OF this ca]
  have run: "run_subprocess w1 cmd0 inp0 None =
     (w1\<lparr>spawned := spawned w1 @ [(cmd0, inp0)], fs := effect proc None (fs w1)\<rparr>,
      Inr (returncode proc, out, err))"
    by (simp add: inp0_def)
  have "\<not> unreadable (fs (w1\<lparr>spawned := spawned w1 @ [(cmd0, inp0)],
                             fs := effect proc None (fs w1)\<rparr>) tmp)"
    using rd by (simp add: w1_def tmp_def)
  with rc show ?thesis
    unfolding unfold run by (simp add: codex_result_nonzero)
qed

lemma gemini_invoke_nonzero:
  assumes sp: "spawned (fst (gemini_invoke w gb subcommand payload files)) =
                 spawned w @ [(cmd, inp)]"
      and la: "launch w cmd inp = Inr proc"
      and rc: "returncode proc \<noteq> 0"
      and ca: "captured proc None = Inr (out, err)"
  shows "snd (gemini_invoke w gb subcommand payload files) = Inl (ExecutionError
           (''Gemini CLI failed ('' @ str_int (returncode proc) @ ''): '' @
            or_str (strip err) (strip out)))"
proof -
  have av: "gemini_ensure_available w gb = Inr ()"
  proof (cases "gemini_ensure_available w gb")
    case (Inl e)
    with sp show ?thesis
      by (simp add: gemini_invoke_def)
  next
    case (Inr u)
    then show ?thesis by simp
  qed
  obtain ctx file_log where rf:
    "read_files w (case files of None \<Rightarrow> [] | Some fl \<Rightarrow> fl) = (ctx, file_log)"
    by (cases "read_files w (case files of None \<Rightarrow> [] | Some fl \<Rightarrow> fl)")
  define cmd0 where
    "cmd0 = build_cli_command (base_cmd gb) subcommand (model gb) (Some (approval_mode gb)) None"
  define inp0 where "inp0 = Some (add_context payload ctx)"
  have unfold: "gemini_invoke w gb subcommand payload files =
      (case run_subprocess w cmd0 inp0 None of
         (w1, Inl e) \<Rightarrow> (w1, Inl e)
       | (w1, Inr result) \<Rightarrow> gemini_result w1 cmd0 file_log result)"
    unfolding cmd0_def inp0_def by (simp add: gemini_invoke_def av rf Let_def)
  have "spawned (fst (gemini_invoke w gb subcommand payload files)) = spawned w @ [(cmd0, inp0)]"
    unfolding unfold
    using run_subprocess_spawned [of w cmd0 inp0 None]
    by (auto simp: gemini_result_spawned split: prod.splits sum.splits)
  with sp have same: "cmd = cmd0" "inp = inp0"
    by simp_all
  from la have "launch w cmd0 (Some (add_context payload ctx)) = Inr proc"
    by (simp add: same inp0_def)
  from run_subprocess_exit [OF this ca] rc show ?thesis
    unfolding unfold inp0_def by (simp add: gemini_result_nonzero)
qed

lemma codex_run_exec_exit:
  assumes av: "codex_ensure_available w cb = Inr ()"
      and tmp: "tmp = tempname w (tempcount w)"
      and rf: "read_files w (case files of None \<Rightarrow> [] | Some fl \<Rightarrow> fl) = (ctx, file_log)"
      and la: "launch w (codex_cmd w cb tmp) (Some (add_context prompt ctx)) = Inr proc"
      and ca: "captured proc None = Inr (out, err)"
  shows "codex_run_exec w cb prompt files =
           codex_result
             (w\<lparr>tempcount := Suc (tempcount w),
                spawned := spawned w @ [(codex_cmd w cb tmp, Some (add_context prompt ctx))],
                fs := effect proc None ((fs w)(tmp := Text []))\<rparr>)
             tmp (codex_cmd w cb tmp) file_log (returncode proc, out, err)"
proof -
  define w1 where "w1 = w\<lparr>fs := (fs w)(tmp := Text []), tempcount := Suc (tempcount w)\<rparr>"
  have tf: "named_temporary_file w = (w1, tmp)"
    by (simp add: named_temporary_file_def Let_def w1_def tmp)
  have cmd: "codex_cmd w1 cb tmp = codex_cmd w cb tmp"
    by (simp add: codex_cmd_def w1_def)
  from la have "launch w1 (codex_cmd w cb tmp) (Some (add_context prompt ctx)) = Inr proc"
    by (simp add: w1_def)
  note run = run_subprocess_exit [OF this ca]
  show ?thesis
    by (simp add: codex_run_exec_def av rf tf cmd Let_def run) (simp add: w1_def)
qed

lemma codex_result_garbled:
  "fs w tmp = Garbled m \<Longrightarrow>
   codex_result w tmp cmd file_log result = (unlink w tmp, Inl (UnicodeDecodeError m))"
  by (cases result) (simp add: codex_result_def read_text_def)


text \<open>
  Where the output of the child decodes and, on the Codex adapter, the last-message file
  can be read, a \<open>generate\<close>, \<open>explain\<close> or \<open>edit\<close> whose child exits with a non-zero
  status fails with \<open>ExecutionError\<close>; the message holds the status and ends with the
  stripped standard error, or with the stripped standard output when that is empty.
\<close>

lemma failure_message_parts:
  assumes "msg = p @ str_int s @ q @ or_str (strip err) (strip out)"
  shows "sublist (str_int s) msg \<and> sublist (strip err) msg \<and>
         (err = [] \<longrightarrow> sublist (strip out) msg) \<and>
         suffix (or_str (strip err) (strip out)) msg"
proof -
  have a: "sublist (str_int s) msg"
    unfolding assms by (rule sublist_appendI)
  have d: "suffix (or_str (strip err) (strip out)) msg"
    unfolding assms by (simp add: suffix_def)
  have b: "sublist (strip err) msg"
  proof (cases "strip err = []")
    case True
    then show ?thesis by simp
  next
    case False
    with d show ?thesis by (simp add: or_str_def)
  qed
  have c: "err = [] \<longrightarrow> sublist (strip out) msg"
    using d by (auto simp: or_str_def strip_Nil)
  from a b c d show ?thesis by blast
qed

lemma nonzero_exit_raises_ExecutionError:
  assumes op: "r \<in> {generate w b prompt files, explain w b snippet,
                     edit w b snippet instructions}"
      and sp: "spawned (fst r) = spawned w @ [(cmd, inp)]"
      and la: "launch w cmd inp = Inr proc"
      and rc: "returncode proc \<noteq> 0"
      and ca: "captured proc None = Inr (out, err)"
      and rd: "\<not> last_message_unreadable b w proc"
  shows "\<exists>msg. snd r = Inl (ExecutionError msg) \<and>
               sublist (str_int (returncode proc)) msg \<and>
               sublist (strip err) msg \<and>
               (err = [] \<longrightarrow> sublist (strip out) msg) \<and>
               suffix (or_str (strip err) (strip out)) msg"
proof (cases b)
  case (Codex cb)
  with op obtain p f where r: "r = codex_run_exec w cb p f"
    by (auto simp: codex_generate_def codex_explain_def codex_edit_def)
  from rd Codex have "\<not> unreadable (effect proc None ((fs w)(tempname w (tempcount w) := Text []))
                   (tempname w (tempcount w)))"
    by simp
  from codex_run_exec_nonzero [OF sp [unfolded r] la rc ca this]
  have "snd r = Inl (ExecutionError
           (''Codex CLI failed ('' @ str_int (returncode proc) @ ''): '' @
            or_str (strip err) (strip out)))"
    by (simp only: r)
  with failure_message_parts [of _ "''Codex CLI failed (''" "returncode proc" "''): ''" err out, OF refl]
  show ?thesis by blast
next
  case (Gemini gb)
  with op obtain sub p f where r: "r = gemini_invoke w gb sub p f"
    by (auto simp: gemini_generate_def gemini_explain_def gemini_edit_def)
  from gemini_invoke_nonzero [OF sp [unfolded r] la rc ca]
  have "snd r = Inl (ExecutionError
           (''Gemini CLI failed ('' @ str_int (returncode proc) @ ''): '' @
            or_str (strip err) (strip out)))"
    by (simp only: r)
  with failure_message_parts [of _ "''Gemini CLI failed (''" "returncode proc" "''): ''" err out, OF refl]
  show ?thesis by blast
qed

lemma demo_stub_codex_eq:
  "demo_stub_codex = Codex \<lparr> model = Some ''gpt-5-codex'', approval_mode = ''suggest'',
      base_cmd = ''codex'', available = True, use_files_arg = False, split_edit = True \<rparr>"
  by (simp add: demo_stub_codex_def codex_init_def Let_def demo_stub_world_def demo_world_def
      getenv_def or_else_def or_opt_def or_str_def which_def path_join_def startswith_def
      truthy_def lower_def lower_char_def strip_def lstrip_def rstrip_def isspace_def
      char_of_eq_iff)

lemma demo_tempname: "tempname demo_stub_world (tempcount demo_stub_world) = ''/tmp/pycodex_last_msg_0.txt''"
  by (simp add: demo_stub_world_def demo_world_def digit_char_def char_of_eq_iff)

lemma codex_run_exec_spawned:
  assumes av: "codex_ensure_available w cb = Inr ()"
  shows "spawned (fst (codex_run_exec w cb prompt files)) =
           spawned w @
           [(codex_cmd w cb (tempname w (tempcount w)),
             Some (add_context prompt
                     (fst (read_files w (case files of None \<Rightarrow> [] | Some fl \<Rightarrow> fl)))))]"
proof -
  obtain ctx file_log where rf:
    "read_files w (case files of None \<Rightarrow> [] | Some fl \<Rightarrow> fl) = (ctx, file_log)"
    by (cases "read_files w (case files of None \<Rightarrow> [] | Some fl \<Rightarrow> fl)")
  define tmp where "tmp = tempname w (tempcount w)"
  define w1 where "w1 = w\<lparr>fs := (fs w)(tmp := Text []), tempcount := Suc (tempcount w)\<rparr>"
  have tf: "named_temporary_file w = (w1, tmp)"
    by (simp add: named_temporary_file_def Let_def w1_def tmp_def)
  have cmd: "codex_cmd w1 cb tmp = codex_cmd w cb tmp"
    by (simp add: codex_cmd_def w1_def)
  have unfold: "codex_run_exec w cb prompt files =
      (case run_subprocess w1 (codex_cmd w cb tmp) (Some (add_context prompt ctx)) None of
         (w2, Inl e) \<Rightarrow> (w2, Inl e)
       | (w2, Inr result) \<Rightarrow> codex_result w2 tmp (codex_cmd w cb tmp) file_log result)"
    by (simp add: codex_run_exec_def av rf tf cmd Let_def)
  have "spawned (fst (codex_run_exec w cb prompt files)) =
          spawned w1 @ [(codex_cmd w cb tmp, Some (add_context prompt ctx))]"
    unfolding unfold
    using run_subprocess_spawned [of w1 "codex_cmd w cb tmp" "Some (add_context prompt ctx)" None]
    by (auto simp: codex_result_spawned split: prod.splits sum.splits)
  then show ?thesis
    by (simp add: rf w1_def tmp_def)
qed

lemma demo_stub_spawned:
  "spawned (fst (generate demo_stub_world demo_stub_codex ''write f'' None)) =
     spawned demo_stub_world @ [(demo_codex_cmd, Some ''write f'')]"
proof -
  let ?cb = "\<lparr> model = Some ''gpt-5-codex'', approval_mode = ''suggest'',
      base_cmd = ''codex'', available = True, use_files_arg = False, split_edit = True \<rparr>"
  have av: "codex_ensure_available demo_stub_world ?cb = Inr ()"
    by (simp add: codex_ensure_available_def)
  have cmd: "codex_cmd demo_stub_world ?cb ''/tmp/pycodex_last_msg_0.txt'' = demo_codex_cmd"
    by (simp add: codex_cmd_def or_opt_def demo_codex_cmd_def demo_stub_world_def demo_world_def)
  have inp: "add_context ''write f'' (fst (read_files demo_stub_world [])) = ''write f''"
    by (simp add: add_context_def read_files_def)
  from codex_run_exec_spawned [OF av, of "''write f''" None] show ?thesis
    by (simp add: demo_stub_codex_eq codex_generate_def demo_tempname cmd inp)
qed

lemma nonzero_exit_raises_ExecutionError_example:
  "spawned (fst (generate demo_stub_world demo_stub_codex ''write f'' None)) =
     spawned demo_stub_world @ [(demo_codex_cmd, Some ''write f'')] \<and>
   launch demo_stub_world demo_codex_cmd (Some ''write f'') = Inr demo_bad_flag \<and>
   returncode demo_bad_flag \<noteq> 0 \<and>
   captured demo_bad_flag None = Inr ([], ''bad flag\<newline>'') \<and>
   \<not> last_message_unreadable demo_stub_codex demo_stub_world demo_bad_flag \<and>
   (\<exists>msg. snd (generate demo_stub_world demo_stub_codex ''write f'' None) =
            Inl (ExecutionError msg) \<and>
          sublist (str_int 2) msg \<and> sublist ''bad flag'' msg)"
proof -
  let ?r = "generate demo_stub_world demo_stub_codex ''write f'' None"
  have op: "?r \<in> {generate demo_stub_world demo_stub_codex ''write f'' None,
                  explain demo_stub_world demo_stub_codex ''x = 1'',
                  edit demo_stub_world demo_stub_codex ''x = 1'' ''rename x''}"
    by simp
  have la: "launch demo_stub_world demo_codex_cmd (Some ''write f'') = Inr demo_bad_flag"
    by (simp add: demo_stub_world_def demo_codex_cmd_def)
  have rc: "returncode demo_bad_flag \<noteq> 0"
    by (simp add: demo_bad_flag_def)
  have rc2: "returncode demo_bad_flag = 2"
    by (simp add: demo_bad_flag_def)
  have ca: "captured demo_bad_flag None = Inr ([], ''bad flag\<newline>'')"
    by (simp add: demo_bad_flag_def)
  have rd: "\<not> last_message_unreadable demo_stub_codex demo_stub_world demo_bad_flag"
    by (simp add: demo_stub_codex_eq demo_bad_flag_def)
  have st: "strip ''bad flag\<newline>'' = ''bad flag''"
    by (simp add: strip_def lstrip_def rstrip_def isspace_def)
  from nonzero_exit_raises_ExecutionError [OF op demo_stub_spawned la rc ca rd]
  have "\<exists>msg. snd ?r = Inl (ExecutionError msg) \<and>
          sublist (str_int 2) msg \<and> sublist ''bad flag'' msg"
    unfolding rc2 st by blast
  with demo_stub_spawned la rc ca rd show ?thesis by blast
qed

lemma demo_garbled_codex:
  "codex_init demo_garbled_world (Some ''gpt-5-codex'') ''suggest'' =
     \<lparr> model = Some ''gpt-5-codex'', approval_mode = ''suggest'',
       base_cmd = ''codex'', available = True, use_files_arg = False, split_edit = True \<rparr>"
  by (simp add: codex_init_def Let_def demo_garbled_world_def demo_stub_world_def demo_world_def
      getenv_def or_else_def or_opt_def or_str_def which_def path_join_def startswith_def
      truthy_def lower_def lower_char_def strip_def lstrip_def rstrip_def isspace_def
      char_of_eq_iff)


text \<open>
  C7 fails on the Codex adapter at this input: \<open>generate("write f")\<close> where the child
  exits with status 2 and \<open>bad flag\<close> on standard error, and the file it leaves at the
  \<open>--output-last-message\<close> path does not decode as UTF-8. \<open>_run_exec\<close> reads that file
  before it looks at the status, so the \<open>UnicodeDecodeError\<close> of the read is what the
  operation raises, not an \<open>ExecutionError\<close> with the status and the error text.
\<close>

theorem nonzero_exit_unreadable_last_message:
  "launch demo_garbled_world demo_codex_cmd (Some ''write f'') = Inr demo_garbling \<and>
   returncode demo_garbling = 2 \<and>
   spawned (fst (codex_generate demo_garbled_world
      (codex_init demo_garbled_world (Some ''gpt-5-codex'') ''suggest'') ''write f'' None)) =
     [(demo_codex_cmd, Some ''write f'')] \<and>
   snd (codex_generate demo_garbled_world
      (codex_init demo_garbled_world (Some ''gpt-5-codex'') ''suggest'') ''write f'' None) =
     Inl (UnicodeDecodeError ''invalid start byte'') \<and>
   \<not> isinstance (UnicodeDecodeError ''invalid start byte'') ''ExecutionError''"
proof -
  let ?w = demo_garbled_world
  let ?cb = "\<lparr> model = Some ''gpt-5-codex'', approval_mode = ''suggest'',
      base_cmd = ''codex'', available = True, use_files_arg = False, split_edit = True \<rparr>"
  let ?tmp = "''/tmp/pycodex_last_msg_0.txt''"
  have av: "codex_ensure_available ?w ?cb = Inr ()"
    by (simp add: codex_ensure_available_def)
  have "tempname ?w (tempcount ?w) = ?tmp"
    by (simp add: demo_garbled_world_def demo_stub_world_def demo_world_def digit_char_def
        char_of_eq_iff)
  then have tmp: "?tmp = tempname ?w (tempcount ?w)"
    by (rule sym)
  have rf: "read_files ?w (case None of None \<Rightarrow> [] | Some fl \<Rightarrow> fl) = ([], [])"
    by (simp add: read_files_def)
  have cmd: "codex_cmd ?w ?cb ?tmp = demo_codex_cmd"
    by (simp add: codex_cmd_def or_opt_def demo_codex_cmd_def demo_garbled_world_def
        demo_stub_world_def demo_world_def)
  have ctx: "add_context ''write f'' [] = ''write f''"
    by (simp add: add_context_def)
  have la: "launch ?w demo_codex_cmd (Some ''write f'') = Inr demo_garbling"
    by (simp add: demo_garbled_world_def)
  have la': "launch ?w (codex_cmd ?w ?cb ?tmp) (Some (add_context ''write f'' [])) = Inr demo_garbling"
    unfolding cmd ctx by (rule la)
  have rc: "returncode demo_garbling = 2"
    by (simp add: demo_garbling_def)
  have ca: "captured demo_garbling None = Inr ([], ''bad flag\<newline>'')"
    by (simp add: demo_garbling_def)
  note run = codex_run_exec_exit [OF av tmp rf la' ca, unfolded cmd ctx]
  have garbled: "fs (?w\<lparr>tempcount := Suc (tempcount ?w),
                spawned := spawned ?w @ [(demo_codex_cmd, Some ''write f'')],
                fs := effect demo_garbling None ((fs ?w)(?tmp := Text []))\<rparr>) ?tmp =
              Garbled ''invalid start byte''"
    by (simp add: demo_garbling_def)
  have sp0: "spawned ?w = []"
    by (simp add: demo_garbled_world_def demo_stub_world_def demo_world_def)
  have gen: "codex_generate ?w (codex_init ?w (Some ''gpt-5-codex'') ''suggest'') ''write f'' None =
      (unlink (?w\<lparr>tempcount := Suc (tempcount ?w),
                spawned := spawned ?w @ [(demo_codex_cmd, Some ''write f'')],
                fs := effect demo_garbling None ((fs ?w)(?tmp := Text []))\<rparr>) ?tmp,
       Inl (UnicodeDecodeError ''invalid start byte''))"
    unfolding codex_generate_def demo_garbled_codex run
    by (rule codex_result_garbled [OF garbled])
  have inst: "\<not> isinstance (UnicodeDecodeError ''invalid start byte'') ''ExecutionError''"
    by (simp add: isinstance_def)
  from la rc inst show ?thesis
    unfolding gen by (simp add: unlink_def sp0)
qed

subsection \<open>Configuration\<close>





end
